theory Spec2Isabelle
  imports Complex_Main
begin

section \<open>Data model of \<open>lab1_api.py\<close>\<close>

text \<open>
  The script talks to a hosted chat-completion service through the \<open>mistralai\<close> SDK.
  Everything the SDK does is outside the repository, so the service is a parameter of the
  model; the script's own code (reading the credential, building the keyword arguments of
  \<open>client.chat.complete\<close>, reading \<open>response.choices[0].message.content\<close>) is embedded
  function by function. The experiment loops at module level, which call these functions
  and print what they return, are not part of the model.

  Python \<open>str\<close> is \<open>string\<close>, Python \<open>int\<close> is \<open>int\<close>. A Python \<open>float\<close> is \<open>real\<close>:
  the script performs no arithmetic on floats, it only passes literals and caller values
  on, so a float is identified with the number it denotes.
\<close>

text \<open>
  The exceptions a call can end with. \<open>ValueError\<close> is the one \<open>get_client\<close> raises (its
  message, a fixed Russian sentence, is not modelled); \<open>IndexError\<close> is what
  \<open>response.choices[0]\<close> raises on an empty list; \<open>ServiceError\<close> stands for whatever the
  SDK raises from \<open>chat.complete\<close>, with a payload that identifies it.
\<close>

datatype exception = ValueError | IndexError | ServiceError string

text \<open>A message dictionary \<open>{"role": ..., "content": ...}\<close>: always exactly these two keys.\<close>

record message =
  role :: string
  content :: string

text \<open>
  The keyword arguments of one \<open>client.chat.complete(...)\<close> call. A keyword the script
  does not pass is \<open>None\<close> here: the service then uses its own default.
\<close>

record request =
  model :: string
  messages :: "message list"
  temperature :: "real option"
  max_tokens :: "int option"
  top_p :: "real option"

text \<open>The part of the SDK's response object the script reads: \<open>choices[i].message.content\<close>.\<close>

record choice =
  message :: message

record response =
  choices :: "choice list"

text \<open>The client handle \<open>Mistral(api_key=...)\<close>.\<close>

datatype mistral = Mistral (api_key: string)

text \<open>
  Observable effects, in the order they happen: a read of an environment variable, the
  construction of a client handle, and an outbound \<open>chat.complete\<close> call (with the handle
  it was made on and its keyword arguments).
\<close>

datatype event =
    is_EnvGet: EnvGet string
  | is_Constructed: Constructed mistral
  | is_ChatComplete: ChatComplete mistral request

text \<open>
  The world outside the module: \<open>os.environ\<close> (as it is after \<open>load_dotenv()\<close>) and the
  trace of effects so far.
\<close>

record world =
  environ :: "string \<rightharpoonup> string"
  trace :: "event list"

text \<open>The remote service: what a \<open>chat.complete\<close> call on a handle answers or raises.\<close>

type_synonym service = "mistral \<Rightarrow> request \<Rightarrow> exception + response"

text \<open>The module's global variable \<open>client\<close>.\<close>

record globals =
  client :: mistral

section \<open>The functions of the script\<close>

text \<open>A parameter with a default value: \<open>None\<close> is a call that omits the argument.\<close>

definition arg_default :: "'a \<Rightarrow> 'a option \<Rightarrow> 'a" where
  "arg_default d a = (case a of None \<Rightarrow> d | Some v \<Rightarrow> v)"

text \<open>Python's \<open>not api_key\<close> on the result of \<open>os.environ.get\<close>: true for \<open>None\<close> and for \<open>""\<close>.\<close>

fun py_not :: "string option \<Rightarrow> bool" where
  "py_not None = True"
| "py_not (Some s) = (s = [])"

text \<open>
  \<^verbatim>\<open>
  def get_client() -> Mistral:
      api_key = os.environ.get("MISTRAL_API_KEY")
      if not api_key:
          raise ValueError(...)
      return Mistral(api_key=api_key)
  \<close>
  The read of the variable and the construction of the handle are recorded in the trace.
  Under \<open>else\<close> the value is a non-empty string; the \<open>None\<close> case there cannot occur,
  since \<open>py_not None\<close> holds.
\<close>

definition get_client :: "world \<Rightarrow> (exception + mistral) \<times> world" where
  "get_client w =
     (let api_key = environ w ''MISTRAL_API_KEY'';
          w1 = w\<lparr>trace := trace w @ [EnvGet ''MISTRAL_API_KEY'']\<rparr>
      in if py_not api_key then (Inl ValueError, w1)
         else (case api_key of
                 None \<Rightarrow> (Inl ValueError, w1)
               | Some k \<Rightarrow>
                   (Inr (Mistral k), w1\<lparr>trace := trace w1 @ [Constructed (Mistral k)]\<rparr>)))"

text \<open>Module initialisation, \<open>client = get_client()\<close>: an exception here aborts the import.\<close>

definition module_init :: "world \<Rightarrow> (exception + globals) \<times> world" where
  "module_init w =
     (case get_client w of
        (Inl e, w') \<Rightarrow> (Inl e, w')
      | (Inr c, w') \<Rightarrow> (Inr \<lparr>client = c\<rparr>, w'))"

text \<open>One outbound call \<open>c.chat.complete(**req)\<close>: it is recorded and the service answers.\<close>

definition chat_complete ::
  "service \<Rightarrow> mistral \<Rightarrow> request \<Rightarrow> world \<Rightarrow> (exception + response) \<times> world" where
  "chat_complete svc c req w = (svc c req, w\<lparr>trace := trace w @ [ChatComplete c req]\<rparr>)"

text \<open>\<open>response.choices[0].message.content\<close>: indexing an empty list raises \<open>IndexError\<close>.\<close>

definition first_content :: "response \<Rightarrow> exception + string" where
  "first_content r =
     (case choices r of [] \<Rightarrow> Inl IndexError | c # _ \<Rightarrow> Inr (content (message c)))"

text \<open>
  \<^verbatim>\<open>
  def basic_chat(prompt: str, model: str = "mistral-small-latest") -> str:
      response = client.chat.complete(
          model=model,
          messages=[{"role": "user", "content": prompt}]
      )
      return response.choices[0].message.content
  \<close>
  An exception of the call is not caught, so it is the function's outcome.
\<close>

definition basic_chat ::
  "service \<Rightarrow> globals \<Rightarrow> world \<Rightarrow> string \<Rightarrow> string option \<Rightarrow> (exception + string) \<times> world" where
  "basic_chat svc g w prompt model' =
     (case chat_complete svc (client g)
             \<lparr>model = arg_default ''mistral-small-latest'' model',
              messages = [\<lparr>role = ''user'', content = prompt\<rparr>],
              temperature = None, max_tokens = None, top_p = None\<rparr> w of
        (Inl e, w') \<Rightarrow> (Inl e, w')
      | (Inr r, w') \<Rightarrow> (first_content r, w'))"

text \<open>
  \<^verbatim>\<open>
  def chat_with_params(prompt, model="mistral-small-latest",
                       temperature=0.7, max_tokens=256, top_p=1.0) -> str:
      response = client.chat.complete(
          model=model,
          messages=[{"role": "user", "content": prompt}],
          temperature=temperature, max_tokens=max_tokens, top_p=top_p
      )
      return response.choices[0].message.content
  \<close>
\<close>

definition chat_with_params ::
  "service \<Rightarrow> globals \<Rightarrow> world \<Rightarrow> string \<Rightarrow> string option \<Rightarrow> real option \<Rightarrow> int option \<Rightarrow>
     real option \<Rightarrow> (exception + string) \<times> world" where
  "chat_with_params svc g w prompt model' temperature' max_tokens' top_p' =
     (case chat_complete svc (client g)
             \<lparr>model = arg_default ''mistral-small-latest'' model',
              messages = [\<lparr>role = ''user'', content = prompt\<rparr>],
              temperature = Some (arg_default 0.7 temperature'),
              max_tokens = Some (arg_default 256 max_tokens'),
              top_p = Some (arg_default 1.0 top_p')\<rparr> w of
        (Inl e, w') \<Rightarrow> (Inl e, w')
      | (Inr r, w') \<Rightarrow> (first_content r, w'))"

text \<open>
  \<^verbatim>\<open>
  def chat_with_system(system_prompt, user_prompt,
                       model="mistral-small-latest", temperature=0.7) -> str:
      response = client.chat.complete(
          model=model,
          messages=[{"role": "system", "content": system_prompt},
                    {"role": "user", "content": user_prompt}],
          temperature=temperature
      )
      return response.choices[0].message.content
  \<close>
\<close>

definition chat_with_system ::
  "service \<Rightarrow> globals \<Rightarrow> world \<Rightarrow> string \<Rightarrow> string \<Rightarrow> string option \<Rightarrow> real option \<Rightarrow>
     (exception + string) \<times> world" where
  "chat_with_system svc g w system_prompt user_prompt model' temperature' =
     (case chat_complete svc (client g)
             \<lparr>model = arg_default ''mistral-small-latest'' model',
              messages = [\<lparr>role = ''system'', content = system_prompt\<rparr>,
                          \<lparr>role = ''user'', content = user_prompt\<rparr>],
              temperature = Some (arg_default 0.7 temperature'),
              max_tokens = None, top_p = None\<rparr> w of
        (Inl e, w') \<Rightarrow> (Inl e, w')
      | (Inr r, w') \<Rightarrow> (first_content r, w'))"

section \<open>Sessions, observations and test services\<close>

text \<open>The keyword arguments of the outbound calls in a trace, oldest first.\<close>

fun requests_sent :: "event list \<Rightarrow> request list" where
  "requests_sent [] = []"
| "requests_sent (ChatComplete c req # es) = req # requests_sent es"
| "requests_sent (EnvGet k # es) = requests_sent es"
| "requests_sent (Constructed c # es) = requests_sent es"




text \<open>Test services: one choice with a text, one choice with an empty text, no choice,
  a failing service, and a service that rejects a temperature outside \<open>[0, 2]\<close>.\<close>

definition one_choice :: "string \<Rightarrow> response" where
  "one_choice s = \<lparr>choices = [\<lparr>message = \<lparr>role = ''assistant'', content = s\<rparr>\<rparr>]\<rparr>"

definition mock_hello :: service where
  "mock_hello c req = Inr (one_choice ''Hello!'')"

definition mock_blank :: service where
  "mock_blank c req = Inr (one_choice [])"

definition mock_no_choice :: service where
  "mock_no_choice c req = Inr \<lparr>choices = []\<rparr>"

definition mock_down :: service where
  "mock_down c req = Inl (ServiceError ''connection refused'')"

definition mock_range_check :: service where
  "mock_range_check c req =
     (case temperature req of
        None \<Rightarrow> Inr (one_choice ''ok'')
      | Some t \<Rightarrow>
          if 0 \<le> t \<and> t \<le> 2 then Inr (one_choice ''ok'')
          else Inl (ServiceError ''invalid temperature''))"

text \<open>Test worlds: a credential is set, none is set, an empty one is set.\<close>

definition world_with_key :: world where
  "world_with_key = \<lparr>environ = [''MISTRAL_API_KEY'' \<mapsto> ''secret''], trace = []\<rparr>"

definition world_no_key :: world where
  "world_no_key = \<lparr>environ = Map.empty, trace = []\<rparr>"

definition world_empty_key :: world where
  "world_empty_key = \<lparr>environ = [''MISTRAL_API_KEY'' \<mapsto> []], trace = []\<rparr>"

definition test_globals :: globals where
  "test_globals = \<lparr>client = Mistral ''secret''\<rparr>"


section \<open>Basic facts about the three functions\<close>

lemma basic_chat_trace:
  "trace (snd (basic_chat svc g w prompt model')) =
     trace w @ [ChatComplete (client g)
        \<lparr>model = arg_default ''mistral-small-latest'' model',
         messages = [\<lparr>role = ''user'', content = prompt\<rparr>],
         temperature = None, max_tokens = None, top_p = None\<rparr>]"
  by (simp add: basic_chat_def chat_complete_def split: sum.split)

lemma basic_chat_result:
  "fst (basic_chat svc g w prompt model') =
     (case svc (client g)
        \<lparr>model = arg_default ''mistral-small-latest'' model',
         messages = [\<lparr>role = ''user'', content = prompt\<rparr>],
         temperature = None, max_tokens = None, top_p = None\<rparr> of
        Inl e \<Rightarrow> Inl e | Inr r \<Rightarrow> first_content r)"
  by (simp add: basic_chat_def chat_complete_def split: sum.split)

lemma chat_with_params_trace:
  "trace (snd (chat_with_params svc g w prompt model' temperature' max_tokens' top_p')) =
     trace w @ [ChatComplete (client g)
        \<lparr>model = arg_default ''mistral-small-latest'' model',
         messages = [\<lparr>role = ''user'', content = prompt\<rparr>],
         temperature = Some (arg_default 0.7 temperature'),
         max_tokens = Some (arg_default 256 max_tokens'),
         top_p = Some (arg_default 1.0 top_p')\<rparr>]"
  by (simp add: chat_with_params_def chat_complete_def split: sum.split)

lemma chat_with_params_result:
  "fst (chat_with_params svc g w prompt model' temperature' max_tokens' top_p') =
     (case svc (client g)
        \<lparr>model = arg_default ''mistral-small-latest'' model',
         messages = [\<lparr>role = ''user'', content = prompt\<rparr>],
         temperature = Some (arg_default 0.7 temperature'),
         max_tokens = Some (arg_default 256 max_tokens'),
         top_p = Some (arg_default 1.0 top_p')\<rparr> of
        Inl e \<Rightarrow> Inl e | Inr r \<Rightarrow> first_content r)"
  by (simp add: chat_with_params_def chat_complete_def split: sum.split)

lemma chat_with_system_trace:
  "trace (snd (chat_with_system svc g w system_prompt user_prompt model' temperature')) =
     trace w @ [ChatComplete (client g)
        \<lparr>model = arg_default ''mistral-small-latest'' model',
         messages = [\<lparr>role = ''system'', content = system_prompt\<rparr>,
                     \<lparr>role = ''user'', content = user_prompt\<rparr>],
         temperature = Some (arg_default 0.7 temperature'),
         max_tokens = None, top_p = None\<rparr>]"
  by (simp add: chat_with_system_def chat_complete_def split: sum.split)

lemma chat_with_system_result:
  "fst (chat_with_system svc g w system_prompt user_prompt model' temperature') =
     (case svc (client g)
        \<lparr>model = arg_default ''mistral-small-latest'' model',
         messages = [\<lparr>role = ''system'', content = system_prompt\<rparr>,
                     \<lparr>role = ''user'', content = user_prompt\<rparr>],
         temperature = Some (arg_default 0.7 temperature'),
         max_tokens = None, top_p = None\<rparr> of
        Inl e \<Rightarrow> Inl e | Inr r \<Rightarrow> first_content r)"
  by (simp add: chat_with_system_def chat_complete_def split: sum.split)

lemma first_content_cases:
  "first_content r = Inl IndexError \<longleftrightarrow> choices r = []"
  "(\<exists>s. first_content r = Inr s) \<longleftrightarrow> choices r \<noteq> []"
  "first_content r \<noteq> Inl (ServiceError x)"
  "first_content r \<noteq> Inl ValueError"
  by (simp_all add: first_content_def split: list.split)

lemma first_content_Cons:
  "choices r = c # cs \<Longrightarrow> first_content r = Inr (content (message c))"
  by (simp add: first_content_def)

lemma requests_sent_append:
  "requests_sent (es @ fs) = requests_sent es @ requests_sent fs"
  by (induction es rule: requests_sent.induct) simp_all

section \<open>Facts about client construction and sessions\<close>

lemma get_client_fails:
  "py_not (environ w ''MISTRAL_API_KEY'') \<Longrightarrow>
     get_client w = (Inl ValueError, w\<lparr>trace := trace w @ [EnvGet ''MISTRAL_API_KEY'']\<rparr>)"
  by (simp add: get_client_def)








section \<open>Request construction and result extraction\<close>

text \<open>
  Claim C1. For every prompt and model, \<open>basic_chat\<close> makes exactly one outbound call, on
  the module's client, whose message list is the single message with role \<open>user\<close> and the
  prompt as content (and which carries no generation knob); when the service answers with
  a response whose choice list starts with a choice \<open>c\<close>, the function returns the text
  of \<open>c\<close>.
\<close>

theorem basic_chat_single_user_message:
  "trace (snd (basic_chat svc g w prompt model')) =
     trace w @ [ChatComplete (client g)
        \<lparr>model = arg_default ''mistral-small-latest'' model',
         messages = [\<lparr>role = ''user'', content = prompt\<rparr>],
         temperature = None, max_tokens = None, top_p = None\<rparr>]
   \<and> (\<forall>r c cs.
        svc (client g)
          \<lparr>model = arg_default ''mistral-small-latest'' model',
           messages = [\<lparr>role = ''user'', content = prompt\<rparr>],
           temperature = None, max_tokens = None, top_p = None\<rparr> = Inr r
        \<and> choices r = c # cs
        \<longrightarrow> fst (basic_chat svc g w prompt model') = Inr (content (message c)))"
proof (intro conjI allI impI)
  show "trace (snd (basic_chat svc g w prompt model')) =
     trace w @ [ChatComplete (client g)
        \<lparr>model = arg_default ''mistral-small-latest'' model',
         messages = [\<lparr>role = ''user'', content = prompt\<rparr>],
         temperature = None, max_tokens = None, top_p = None\<rparr>]"
    by (rule basic_chat_trace)
next
  fix r c cs
  assume a: "svc (client g)
          \<lparr>model = arg_default ''mistral-small-latest'' model',
           messages = [\<lparr>role = ''user'', content = prompt\<rparr>],
           temperature = None, max_tokens = None, top_p = None\<rparr> = Inr r
        \<and> choices r = c # cs"
  then have "first_content r = Inr (content (message c))"
    by (simp add: first_content_Cons)
  with a show "fst (basic_chat svc g w prompt model') = Inr (content (message c))"
    by (simp add: basic_chat_result)
qed

text \<open>
  The scenario of the specification: \<open>complete("Say hi", model="test-model")\<close> against a
  service answering one choice with text \<open>"Hello!"\<close> returns exactly \<open>"Hello!"\<close>.
\<close>

theorem basic_chat_single_user_message_witness:
  "trace (snd (basic_chat mock_hello test_globals world_with_key ''Say hi'' (Some ''test-model''))) =
     [ChatComplete (Mistral ''secret'')
        \<lparr>model = ''test-model'', messages = [\<lparr>role = ''user'', content = ''Say hi''\<rparr>],
         temperature = None, max_tokens = None, top_p = None\<rparr>]
   \<and> fst (basic_chat mock_hello test_globals world_with_key ''Say hi'' (Some ''test-model''))
       = Inr ''Hello!''"
  using basic_chat_single_user_message
          [of mock_hello test_globals world_with_key "''Say hi''" "Some ''test-model''"]
  by (simp add: mock_hello_def one_choice_def test_globals_def world_with_key_def arg_default_def)

section \<open>Generation knobs\<close>

text \<open>
  Claim C2. A temperature, a maximal output length or a \<open>top_p\<close> value that the caller of
  \<open>chat_with_params\<close> supplies appears unchanged in the keyword arguments of the
  outbound call, each of the three independently of whether the other two are supplied;
  so does a temperature supplied to \<open>chat_with_system\<close>. With all three supplied the
  request is exactly the user message with these three values.
\<close>

theorem chat_with_params_forwards_knobs:
  "(\<exists>req. trace (snd (chat_with_params svc g w prompt model' (Some t) max_tokens' top_p')) =
            trace w @ [ChatComplete (client g) req] \<and> temperature req = Some t)
   \<and> (\<exists>req. trace (snd (chat_with_params svc g w prompt model' temperature' (Some n) top_p')) =
            trace w @ [ChatComplete (client g) req] \<and> max_tokens req = Some n)
   \<and> (\<exists>req. trace (snd (chat_with_params svc g w prompt model' temperature' max_tokens' (Some p))) =
            trace w @ [ChatComplete (client g) req] \<and> top_p req = Some p)
   \<and> (\<exists>req. trace (snd (chat_with_system svc g w system_prompt prompt model' (Some t))) =
            trace w @ [ChatComplete (client g) req] \<and> temperature req = Some t)
   \<and> requests_sent (trace (snd (chat_with_params svc g w prompt model' (Some t) (Some n) (Some p)))) =
       requests_sent (trace w) @
         [\<lparr>model = arg_default ''mistral-small-latest'' model',
           messages = [\<lparr>role = ''user'', content = prompt\<rparr>],
           temperature = Some t, max_tokens = Some n, top_p = Some p\<rparr>]"
  by (simp add: chat_with_params_trace chat_with_system_trace requests_sent_append
        arg_default_def)

text \<open>The scenario \<open>complete("X", maxOutputLength=50)\<close>, with the other two knobs supplied too.\<close>

theorem chat_with_params_forwards_knobs_witness:
  "requests_sent (trace (snd (chat_with_params mock_hello test_globals world_with_key ''X''
      None (Some 1.5) (Some 50) (Some 0.9)))) =
     [\<lparr>model = ''mistral-small-latest'', messages = [\<lparr>role = ''user'', content = ''X''\<rparr>],
       temperature = Some 1.5, max_tokens = Some 50, top_p = Some 0.9\<rparr>]"
  using chat_with_params_forwards_knobs
          [where svc = mock_hello and g = test_globals and w = world_with_key and prompt = "''X''"
             and model' = None and t = "1.5" and n = 50 and p = "0.9"]
  by (simp add: world_with_key_def arg_default_def)

text \<open>
  The statement of claim C3, that a knob the caller does not supply is absent from the
  outbound request, fails for \<open>chat_with_params\<close>: called with the prompt only, it sends
  its own defaults \<open>temperature=0.7\<close>, \<open>max_tokens=256\<close> and \<open>top_p=1.0\<close>.
\<close>

theorem chat_with_params_omitted_knobs_counterexample:
  "map temperature (requests_sent (trace (snd
      (chat_with_params mock_hello test_globals world_with_key ''X'' None None None None))))
     = [Some 0.7]
   \<and> map max_tokens (requests_sent (trace (snd
      (chat_with_params mock_hello test_globals world_with_key ''X'' None None None None))))
     = [Some 256]
   \<and> map top_p (requests_sent (trace (snd
      (chat_with_params mock_hello test_globals world_with_key ''X'' None None None None))))
     = [Some 1]"
  by (simp add: chat_with_params_trace world_with_key_def arg_default_def)

text \<open>
  Claim C3, amended. Every generation knob is optional. \<open>basic_chat\<close> never puts a knob
  into the request, so there the service applies its own defaults. \<open>chat_with_params\<close>
  sends, for each knob the caller omits, the default of its own signature: temperature
  \<open>0.7\<close>, \<open>max_tokens\<close> \<open>256\<close>, \<open>top_p\<close> \<open>1.0\<close>. \<open>chat_with_system\<close> sends temperature
  \<open>0.7\<close> when the caller omits it, and never sends \<open>max_tokens\<close> or \<open>top_p\<close>, whether
  or not a temperature is supplied.
\<close>

theorem omitted_knobs:
  "(\<exists>req. trace (snd (basic_chat svc g w prompt model')) = trace w @ [ChatComplete (client g) req]
        \<and> temperature req = None \<and> max_tokens req = None \<and> top_p req = None)
   \<and> (\<exists>req. trace (snd (chat_with_params svc g w prompt model' None max_tokens' top_p')) =
            trace w @ [ChatComplete (client g) req] \<and> temperature req = Some 0.7)
   \<and> (\<exists>req. trace (snd (chat_with_params svc g w prompt model' temperature' None top_p')) =
            trace w @ [ChatComplete (client g) req] \<and> max_tokens req = Some 256)
   \<and> (\<exists>req. trace (snd (chat_with_params svc g w prompt model' temperature' max_tokens' None)) =
            trace w @ [ChatComplete (client g) req] \<and> top_p req = Some 1.0)
   \<and> (\<exists>req. trace (snd (chat_with_system svc g w system_prompt prompt model' None)) =
            trace w @ [ChatComplete (client g) req]
        \<and> temperature req = Some 0.7 \<and> max_tokens req = None \<and> top_p req = None)
   \<and> (\<exists>req. trace (snd (chat_with_system svc g w system_prompt prompt model' temperature')) =
            trace w @ [ChatComplete (client g) req]
        \<and> temperature req = Some (arg_default 0.7 temperature')
        \<and> max_tokens req = None \<and> top_p req = None)"
  by (simp add: basic_chat_trace chat_with_params_trace chat_with_system_trace arg_default_def)

text \<open>
  Only \<open>max_tokens\<close> supplied to \<open>chat_with_params\<close>: the temperature sent is the default
  \<open>0.7\<close>. A temperature supplied to \<open>chat_with_system\<close>: it is sent, and neither
  \<open>max_tokens\<close> nor \<open>top_p\<close> is.
\<close>

theorem omitted_knobs_witness:
  "(\<exists>req. trace (snd (chat_with_params mock_hello test_globals world_with_key ''X''
             None None (Some 100) None)) = [ChatComplete (Mistral ''secret'') req]
         \<and> temperature req = Some 0.7)
   \<and> (\<exists>req. trace (snd (chat_with_system mock_hello test_globals world_with_key
             ''Be brief'' ''X'' None (Some 1.5))) = [ChatComplete (Mistral ''secret'') req]
         \<and> temperature req = Some 1.5 \<and> max_tokens req = None \<and> top_p req = None)"
proof -
  note h = omitted_knobs
          [where svc = mock_hello and g = test_globals and w = world_with_key and prompt = "''X''"
             and model' = None and max_tokens' = "Some 100" and top_p' = None
             and system_prompt = "''Be brief''" and temperature' = "Some 1.5"]
  from h [THEN conjunct2, THEN conjunct1]
    h [THEN conjunct2, THEN conjunct2, THEN conjunct2, THEN conjunct2, THEN conjunct2]
  show ?thesis
    by (simp add: world_with_key_def test_globals_def arg_default_def)
qed

text \<open>
  Claim C7. Whatever knobs the caller of \<open>chat_with_params\<close> supplies or omits, and whatever
  their values, in or out of any range, the function makes its one outbound call, with
  every supplied value unchanged in the request (and the signature's default for an
  omitted one), and its outcome is decided by the service's answer alone: the exception
  of the call, or the extraction of the first choice's text. No value makes the function
  fail before or instead of the call; in particular a \<open>ServiceError\<close> outcome is always
  the one the service raised.
\<close>

theorem chat_with_params_no_range_check:
  "trace (snd (chat_with_params svc g w prompt model' temperature' max_tokens' top_p')) =
     trace w @ [ChatComplete (client g)
        \<lparr>model = arg_default ''mistral-small-latest'' model',
         messages = [\<lparr>role = ''user'', content = prompt\<rparr>],
         temperature = Some (arg_default 0.7 temperature'),
         max_tokens = Some (arg_default 256 max_tokens'),
         top_p = Some (arg_default 1.0 top_p')\<rparr>]
   \<and> fst (chat_with_params svc g w prompt model' temperature' max_tokens' top_p') =
       (case svc (client g)
          \<lparr>model = arg_default ''mistral-small-latest'' model',
           messages = [\<lparr>role = ''user'', content = prompt\<rparr>],
           temperature = Some (arg_default 0.7 temperature'),
           max_tokens = Some (arg_default 256 max_tokens'),
           top_p = Some (arg_default 1.0 top_p')\<rparr> of
          Inl e \<Rightarrow> Inl e | Inr r \<Rightarrow> first_content r)
   \<and> (\<forall>x. fst (chat_with_params svc g w prompt model' temperature' max_tokens' top_p')
             = Inl (ServiceError x) \<longrightarrow>
          svc (client g)
            \<lparr>model = arg_default ''mistral-small-latest'' model',
             messages = [\<lparr>role = ''user'', content = prompt\<rparr>],
             temperature = Some (arg_default 0.7 temperature'),
             max_tokens = Some (arg_default 256 max_tokens'),
             top_p = Some (arg_default 1.0 top_p')\<rparr>
             = Inl (ServiceError x))
   \<and> trace (snd (chat_with_params svc g w prompt model' (Some t) max_tokens' top_p')) =
       trace w @ [ChatComplete (client g)
          \<lparr>model = arg_default ''mistral-small-latest'' model',
           messages = [\<lparr>role = ''user'', content = prompt\<rparr>],
           temperature = Some t,
           max_tokens = Some (arg_default 256 max_tokens'),
           top_p = Some (arg_default 1.0 top_p')\<rparr>]
   \<and> trace (snd (chat_with_params svc g w prompt model' temperature' (Some n) top_p')) =
       trace w @ [ChatComplete (client g)
          \<lparr>model = arg_default ''mistral-small-latest'' model',
           messages = [\<lparr>role = ''user'', content = prompt\<rparr>],
           temperature = Some (arg_default 0.7 temperature'),
           max_tokens = Some n,
           top_p = Some (arg_default 1.0 top_p')\<rparr>]
   \<and> trace (snd (chat_with_params svc g w prompt model' temperature' max_tokens' (Some p))) =
       trace w @ [ChatComplete (client g)
          \<lparr>model = arg_default ''mistral-small-latest'' model',
           messages = [\<lparr>role = ''user'', content = prompt\<rparr>],
           temperature = Some (arg_default 0.7 temperature'),
           max_tokens = Some (arg_default 256 max_tokens'),
           top_p = Some p\<rparr>]"
proof -
  let ?req = "\<lparr>model = arg_default ''mistral-small-latest'' model',
         messages = [\<lparr>role = ''user'', content = prompt\<rparr>],
         temperature = Some (arg_default 0.7 temperature'),
         max_tokens = Some (arg_default 256 max_tokens'),
         top_p = Some (arg_default 1.0 top_p')\<rparr>"
  let ?X = "chat_with_params svc g w prompt model' temperature' max_tokens' top_p'"
  have tr: "trace (snd ?X) = trace w @ [ChatComplete (client g) ?req]"
    by (rule chat_with_params_trace)
  have res: "fst ?X = (case svc (client g) ?req of Inl e \<Rightarrow> Inl e | Inr r \<Rightarrow> first_content r)"
    by (rule chat_with_params_result)
  have origin: "\<forall>x. fst ?X = Inl (ServiceError x) \<longrightarrow> svc (client g) ?req = Inl (ServiceError x)"
  proof (intro allI impI)
    fix x
    assume "fst ?X = Inl (ServiceError x)"
    with res have "(case svc (client g) ?req of Inl e \<Rightarrow> Inl e | Inr r \<Rightarrow> first_content r)
                     = Inl (ServiceError x)"
      by simp
    then show "svc (client g) ?req = Inl (ServiceError x)"
      by (cases "svc (client g) ?req") (simp_all add: first_content_cases)
  qed
  have t1: "trace (snd (chat_with_params svc g w prompt model' (Some t) max_tokens' top_p')) =
       trace w @ [ChatComplete (client g)
          \<lparr>model = arg_default ''mistral-small-latest'' model',
           messages = [\<lparr>role = ''user'', content = prompt\<rparr>],
           temperature = Some t,
           max_tokens = Some (arg_default 256 max_tokens'),
           top_p = Some (arg_default 1.0 top_p')\<rparr>]"
    by (simp add: chat_with_params_trace arg_default_def)
  have t2: "trace (snd (chat_with_params svc g w prompt model' temperature' (Some n) top_p')) =
       trace w @ [ChatComplete (client g)
          \<lparr>model = arg_default ''mistral-small-latest'' model',
           messages = [\<lparr>role = ''user'', content = prompt\<rparr>],
           temperature = Some (arg_default 0.7 temperature'),
           max_tokens = Some n,
           top_p = Some (arg_default 1.0 top_p')\<rparr>]"
    by (simp add: chat_with_params_trace arg_default_def)
  have t3: "trace (snd (chat_with_params svc g w prompt model' temperature' max_tokens' (Some p))) =
       trace w @ [ChatComplete (client g)
          \<lparr>model = arg_default ''mistral-small-latest'' model',
           messages = [\<lparr>role = ''user'', content = prompt\<rparr>],
           temperature = Some (arg_default 0.7 temperature'),
           max_tokens = Some (arg_default 256 max_tokens'),
           top_p = Some p\<rparr>]"
    by (simp add: chat_with_params_trace arg_default_def)
  from tr res origin t1 t2 t3 show ?thesis
    by (intro conjI)
qed

text \<open>
  The call \<open>chat_with_params("X", temperature=5)\<close>, with the other knobs omitted, and the
  call with temperature \<open>5\<close>, \<open>max_tokens\<close> \<open>-3\<close> and \<open>top_p\<close> \<open>7\<close>: both reach a
  service that checks the temperature range, with the values unchanged, and the rejection
  is the service's.
\<close>

theorem chat_with_params_no_range_check_witness:
  "requests_sent (trace (snd (chat_with_params mock_range_check test_globals world_with_key ''X''
      None (Some 5) None None))) =
     [\<lparr>model = ''mistral-small-latest'', messages = [\<lparr>role = ''user'', content = ''X''\<rparr>],
       temperature = Some 5, max_tokens = Some 256, top_p = Some 1\<rparr>]
   \<and> fst (chat_with_params mock_range_check test_globals world_with_key ''X''
      None (Some 5) None None) = Inl (ServiceError ''invalid temperature'')
   \<and> requests_sent (trace (snd (chat_with_params mock_range_check test_globals world_with_key ''X''
      None (Some 5) (Some (- 3)) (Some 7)))) =
     [\<lparr>model = ''mistral-small-latest'', messages = [\<lparr>role = ''user'', content = ''X''\<rparr>],
       temperature = Some 5, max_tokens = Some (- 3), top_p = Some 7\<rparr>]
   \<and> fst (chat_with_params mock_range_check test_globals world_with_key ''X''
      None (Some 5) (Some (- 3)) (Some 7)) = Inl (ServiceError ''invalid temperature'')"
proof -
  note h1 = chat_with_params_no_range_check
          [where svc = mock_range_check and g = test_globals and w = world_with_key
             and prompt = "''X''" and model' = None and temperature' = "Some 5"
             and max_tokens' = None and top_p' = None]
  note h2 = chat_with_params_no_range_check
          [where svc = mock_range_check and g = test_globals and w = world_with_key
             and prompt = "''X''" and model' = None and temperature' = "Some 5"
             and max_tokens' = "Some (- 3)" and top_p' = "Some 7"]
  from h1 [THEN conjunct1] h1 [THEN conjunct2, THEN conjunct1]
    h2 [THEN conjunct1] h2 [THEN conjunct2, THEN conjunct1]
  show ?thesis
    by (simp add: mock_range_check_def world_with_key_def arg_default_def)
qed

section \<open>System prompt\<close>

text \<open>
  Claim C4. For every system prompt and user prompt, the request of \<open>chat_with_system\<close>
  has exactly two messages: first the one with role \<open>system\<close> and the system prompt, then
  the one with role \<open>user\<close> and the user prompt.
\<close>

theorem chat_with_system_messages:
  "\<exists>req. trace (snd (chat_with_system svc g w system_prompt user_prompt model' temperature')) =
           trace w @ [ChatComplete (client g) req]
        \<and> messages req = [\<lparr>role = ''system'', content = system_prompt\<rparr>,
                           \<lparr>role = ''user'', content = user_prompt\<rparr>]"
  by (simp add: chat_with_system_trace)

text \<open>The two messages of a concrete call.\<close>

theorem chat_with_system_messages_witness:
  "\<exists>req. trace (snd (chat_with_system mock_hello test_globals world_with_key
             ''Be brief'' ''Say hi'' None None)) = [ChatComplete (Mistral ''secret'') req]
         \<and> messages req = [\<lparr>role = ''system'', content = ''Be brief''\<rparr>,
                            \<lparr>role = ''user'', content = ''Say hi''\<rparr>]"
  using chat_with_system_messages
          [where svc = mock_hello and g = test_globals and w = world_with_key
             and system_prompt = "''Be brief''" and user_prompt = "''Say hi''"
             and model' = None and temperature' = None]
  by (simp add: world_with_key_def test_globals_def)

section \<open>Credential and client handle\<close>

text \<open>
  Claim C5. When the credential \<open>MISTRAL_API_KEY\<close> is absent from the environment or is the
  empty string, \<open>get_client\<close>, and with it the initialisation of the module, fails with
  \<open>ValueError\<close> (the configuration error of the script); the only effect before the failure
  is the read of the variable: no client is constructed and no outbound call is made.
\<close>

theorem missing_credential_fails:
  assumes "environ w ''MISTRAL_API_KEY'' = None \<or> environ w ''MISTRAL_API_KEY'' = Some []"
  shows "fst (get_client w) = Inl ValueError
       \<and> fst (module_init w) = Inl ValueError
       \<and> trace (snd (get_client w)) = trace w @ [EnvGet ''MISTRAL_API_KEY'']
       \<and> trace (snd (module_init w)) = trace w @ [EnvGet ''MISTRAL_API_KEY'']
       \<and> requests_sent (trace (snd (module_init w))) = requests_sent (trace w)"
proof -
  from assms have "py_not (environ w ''MISTRAL_API_KEY'')" by auto
  then have gc: "get_client w = (Inl ValueError, w\<lparr>trace := trace w @ [EnvGet ''MISTRAL_API_KEY'']\<rparr>)"
    by (rule get_client_fails)
  then have "module_init w = (Inl ValueError, w\<lparr>trace := trace w @ [EnvGet ''MISTRAL_API_KEY'']\<rparr>)"
    by (simp add: module_init_def)
  with gc show ?thesis by (simp add: requests_sent_append)
qed

text \<open>An environment without the variable, and one where it is the empty string.\<close>

theorem missing_credential_fails_witness:
  "fst (module_init world_no_key) = Inl ValueError
   \<and> requests_sent (trace (snd (module_init world_no_key))) = []
   \<and> fst (module_init world_empty_key) = Inl ValueError
   \<and> requests_sent (trace (snd (module_init world_empty_key))) = []"
  using missing_credential_fails [of world_no_key] missing_credential_fails [of world_empty_key]
  by (simp add: world_no_key_def world_empty_key_def)



section \<open>Failures\<close>

text \<open>
  Claim C6. When the outbound call of \<open>basic_chat\<close> fails with an exception \<open>e\<close>, the
  function ends with that same exception \<open>e\<close>; it returns no string, and the call was made
  exactly once (nothing is retried).
\<close>

theorem basic_chat_propagates_failure:
  assumes "svc (client g)
             \<lparr>model = arg_default ''mistral-small-latest'' model',
              messages = [\<lparr>role = ''user'', content = prompt\<rparr>],
              temperature = None, max_tokens = None, top_p = None\<rparr> = Inl e"
  shows "fst (basic_chat svc g w prompt model') = Inl e
       \<and> (\<forall>s. fst (basic_chat svc g w prompt model') \<noteq> Inr s)
       \<and> trace (snd (basic_chat svc g w prompt model')) =
           trace w @ [ChatComplete (client g)
             \<lparr>model = arg_default ''mistral-small-latest'' model',
              messages = [\<lparr>role = ''user'', content = prompt\<rparr>],
              temperature = None, max_tokens = None, top_p = None\<rparr>]"
  using assms by (simp add: basic_chat_result basic_chat_trace)

text \<open>A service that refuses every connection.\<close>

theorem basic_chat_propagates_failure_witness:
  "fst (basic_chat mock_down test_globals world_with_key ''Say hi'' None)
     = Inl (ServiceError ''connection refused'')
   \<and> length (requests_sent (trace (snd
        (basic_chat mock_down test_globals world_with_key ''Say hi'' None)))) = 1"
  using basic_chat_propagates_failure
          [where svc = mock_down and g = test_globals and w = world_with_key
             and prompt = "''Say hi''" and model' = None
             and e = "ServiceError ''connection refused''"]
  by (simp add: mock_down_def world_with_key_def)

text \<open>
  Claim C10. In each of the three functions, when the service answers with a response whose
  choice list is empty, the function fails with \<open>IndexError\<close> and returns no string; for
  an answered call, a string is returned if and only if the choice list is non-empty.
\<close>

theorem empty_choices_raise_index_error:
  "(\<forall>r. svc (client g)
          \<lparr>model = arg_default ''mistral-small-latest'' model',
           messages = [\<lparr>role = ''user'', content = prompt\<rparr>],
           temperature = None, max_tokens = None, top_p = None\<rparr> = Inr r \<longrightarrow>
        (choices r = [] \<longrightarrow> fst (basic_chat svc g w prompt model') = Inl IndexError)
        \<and> ((\<exists>s. fst (basic_chat svc g w prompt model') = Inr s) \<longleftrightarrow> choices r \<noteq> []))
   \<and> (\<forall>r. svc (client g)
          \<lparr>model = arg_default ''mistral-small-latest'' model',
           messages = [\<lparr>role = ''user'', content = prompt\<rparr>],
           temperature = Some (arg_default 0.7 temperature'),
           max_tokens = Some (arg_default 256 max_tokens'),
           top_p = Some (arg_default 1.0 top_p')\<rparr> = Inr r \<longrightarrow>
        (choices r = [] \<longrightarrow>
           fst (chat_with_params svc g w prompt model' temperature' max_tokens' top_p')
             = Inl IndexError)
        \<and> ((\<exists>s. fst (chat_with_params svc g w prompt model' temperature' max_tokens' top_p')
                  = Inr s) \<longleftrightarrow> choices r \<noteq> []))
   \<and> (\<forall>r. svc (client g)
          \<lparr>model = arg_default ''mistral-small-latest'' model',
           messages = [\<lparr>role = ''system'', content = system_prompt\<rparr>,
                       \<lparr>role = ''user'', content = prompt\<rparr>],
           temperature = Some (arg_default 0.7 temperature'),
           max_tokens = None, top_p = None\<rparr> = Inr r \<longrightarrow>
        (choices r = [] \<longrightarrow>
           fst (chat_with_system svc g w system_prompt prompt model' temperature')
             = Inl IndexError)
        \<and> ((\<exists>s. fst (chat_with_system svc g w system_prompt prompt model' temperature')
                  = Inr s) \<longleftrightarrow> choices r \<noteq> []))"
  by (simp add: basic_chat_result chat_with_params_result chat_with_system_result
        first_content_cases)

text \<open>A service that answers with no choice at all.\<close>

theorem empty_choices_raise_index_error_witness:
  "fst (basic_chat mock_no_choice test_globals world_with_key ''Say hi'' None) = Inl IndexError
   \<and> fst (chat_with_params mock_no_choice test_globals world_with_key ''Say hi''
          None None None None) = Inl IndexError
   \<and> fst (chat_with_system mock_no_choice test_globals world_with_key ''Be brief'' ''Say hi''
          None None) = Inl IndexError"
  using empty_choices_raise_index_error
          [where svc = mock_no_choice and g = test_globals and w = world_with_key
             and prompt = "''Say hi''" and model' = None and temperature' = None
             and max_tokens' = None and top_p' = None and system_prompt = "''Be brief''"]
  by (simp add: mock_no_choice_def)

section \<open>Emptiness of the result\<close>

text \<open>
  The statement of claim C8, that \<open>basic_chat\<close> returns a non-empty string whenever the
  service returns a well-formed choice list, fails when the first choice carries an empty
  text: the function returns the empty string.
\<close>

theorem basic_chat_blank_counterexample:
  "fst (basic_chat mock_blank test_globals world_with_key ''Say hi'' None) = Inr []"
  by (simp add: basic_chat_result mock_blank_def one_choice_def first_content_def)

text \<open>
  Claim C8, amended. For every prompt, when the service answers \<open>basic_chat\<close> (called with
  no knob) with a non-empty choice list, the function returns exactly the text of the
  first choice; the result is a non-empty string if and only if that text is non-empty.
\<close>

theorem basic_chat_returns_first_text:
  assumes "svc (client g)
             \<lparr>model = arg_default ''mistral-small-latest'' model',
              messages = [\<lparr>role = ''user'', content = prompt\<rparr>],
              temperature = None, max_tokens = None, top_p = None\<rparr> = Inr r"
      and "choices r = c # cs"
  shows "fst (basic_chat svc g w prompt model') = Inr (content (message c))
       \<and> ((\<exists>s. fst (basic_chat svc g w prompt model') = Inr s \<and> s \<noteq> [])
            \<longleftrightarrow> content (message c) \<noteq> [])"
  using assms by (simp add: basic_chat_result first_content_Cons)

text \<open>A first choice with a non-empty text gives a non-empty result.\<close>

theorem basic_chat_returns_first_text_witness:
  "fst (basic_chat mock_hello test_globals world_with_key ''Tell a joke'' None) = Inr ''Hello!''
   \<and> (\<exists>s. fst (basic_chat mock_hello test_globals world_with_key ''Tell a joke'' None) = Inr s
          \<and> s \<noteq> [])"
proof -
  have a: "mock_hello (client test_globals)
             \<lparr>model = arg_default ''mistral-small-latest'' None,
              messages = [\<lparr>role = ''user'', content = ''Tell a joke''\<rparr>],
              temperature = None, max_tokens = None, top_p = None\<rparr> = Inr (one_choice ''Hello!'')"
    by (simp add: mock_hello_def)
  have b: "choices (one_choice ''Hello!'') =
             \<lparr>message = \<lparr>role = ''assistant'', content = ''Hello!''\<rparr>\<rparr> # []"
    by (simp add: one_choice_def)
  note h = basic_chat_returns_first_text
      [where svc = mock_hello and g = test_globals and w = world_with_key
         and prompt = "''Tell a joke''" and model' = None and r = "one_choice ''Hello!''"
         and c = "\<lparr>message = \<lparr>role = ''assistant'', content = ''Hello!''\<rparr>\<rparr>" and cs = "[]"]
  from h [OF a b] show ?thesis
    by simp
qed

end
